theory Spec2Isabelle
  imports Main
begin

section \<open>Values, errors and promises\<close>

text \<open>
  The driver in \<^verbatim>\<open>src/Drivers/index.js\<close> is a class with one mutable field
  (\<^verbatim>\<open>this._bucket\<close>) whose methods call the storage client and wrap its callback in
  a promise. JavaScript values that cross the interface are kept as a small tagged union;
  an error object is opaque apart from its message.
\<close>

datatype js_value = JUndefined | JBool bool | JNumber int | JString string | JHandle nat

datatype js_error = Error string

text \<open>A settled promise: \<^verbatim>\<open>resolve(v)\<close> or \<^verbatim>\<open>reject(e)\<close>.\<close>

datatype 'a promise = Resolved 'a | Rejected js_error

text \<open>An options object, read by property name; a missing property is \<open>None\<close>.\<close>

type_synonym options = "string \<rightharpoonup> js_value"

section \<open>The bucket selector\<close>

text \<open>
  Modelled from the spec: the class \<^verbatim>\<open>Resetable\<close> (package \<^verbatim>\<open>resetable\<close>) behind
  \<^verbatim>\<open>this._bucket\<close> is not part of the sources. Sections 3 and 4.1 of the specification
  give it as a default bucket name with an optional one-shot override: \<^verbatim>\<open>setOverride(name)\<close>
  stores the name as pending, \<^verbatim>\<open>resolve()\<close> returns the pending override if present (and
  clears it), else the default bucket. The driver calls them \<^verbatim>\<open>set\<close> and \<^verbatim>\<open>pull\<close>.
\<close>

record BucketSelector =
  defaultBucket :: string
  pendingOverride :: "string option"

definition setOverride :: "string \<Rightarrow> BucketSelector \<Rightarrow> BucketSelector" where
  "setOverride name sel = sel\<lparr>pendingOverride := Some name\<rparr>"

definition resolve :: "BucketSelector \<Rightarrow> string \<times> BucketSelector" where
  "resolve sel =
     (case pendingOverride sel of
        Some name \<Rightarrow> (name, sel\<lparr>pendingOverride := None\<rparr>)
      | None \<Rightarrow> (defaultBucket sel, sel))"

section \<open>The storage client and the host environment\<close>

text \<open>
  Every call the driver makes on \<^verbatim>\<open>this.storage.bucket(b)\<close> is one request. The bucket
  and object names are the arguments of \<^verbatim>\<open>.bucket(...)\<close> and \<^verbatim>\<open>.file(...)\<close>.
\<close>

datatype request =
    ReqExists string string
  | ReqGetSignedUrl string string options
  | ReqUpload string string options
  | ReqDelete string string
  | ReqCopy string string string string options
  | ReqMove string string string string options
  | ReqMakePublic string string
  | ReqMakePrivate string string
  | ReqCreateReadStream string string
  | ReqGet string string
  | ReqDownload string string string

text \<open>
  A request names an empty bucket when one of the bucket names it was built from is the
  empty string. The storage client does not take such a name: \<^verbatim>\<open>storage.bucket('')\<close>
  throws, and inside the executor of a promise that is a rejection. The client being a
  parameter, this is a condition on it where a statement needs it.
\<close>

fun names_empty_bucket :: "request \<Rightarrow> bool" where
  "names_empty_bucket (ReqExists b location) = (b = [])"
| "names_empty_bucket (ReqGetSignedUrl b location opts) = (b = [])"
| "names_empty_bucket (ReqUpload b content opts) = (b = [])"
| "names_empty_bucket (ReqDelete b location) = (b = [])"
| "names_empty_bucket (ReqCopy b src destBucket dest opts) = (b = [] \<or> destBucket = [])"
| "names_empty_bucket (ReqMove b src destBucket dest opts) = (b = [] \<or> destBucket = [])"
| "names_empty_bucket (ReqMakePublic b location) = (b = [])"
| "names_empty_bucket (ReqMakePrivate b location) = (b = [])"
| "names_empty_bucket (ReqCreateReadStream b location) = (b = [])"
| "names_empty_bucket (ReqGet b location) = (b = [])"
| "names_empty_bucket (ReqDownload b location destination) = (b = [])"

text \<open>What the client hands to the callback: \<^verbatim>\<open>(error, data)\<close>.\<close>

record reply =
  reply_error :: "js_error option"
  reply_data :: js_value

text \<open>
  What the driver does to the outside, in the order it does it: a resolution of the
  selector (with the bucket it returned), a request to the storage client, a reading of
  the clock and the two file-system calls of \<^verbatim>\<open>download\<close>.
\<close>

datatype event =
    SelectorResolved string
  | Outbound request
  | ClockRead nat
  | FsExistsSync string
  | FsMkdirSync string

text \<open>
  The collaborators are parameters: the storage client (which may change the outside
  world \<open>'w\<close> and answer from it), \<^verbatim>\<open>mime.lookup\<close>, \<^verbatim>\<open>new Date().getTime()\<close>,
  \<^verbatim>\<open>fs.existsSync\<close> and \<^verbatim>\<open>fs.mkdirSync\<close> (which may throw).
\<close>

record 'w env =
  backend :: "request \<Rightarrow> 'w \<Rightarrow> reply \<times> 'w"
  mime_lookup :: "string \<Rightarrow> js_value"
  clock :: "'w \<Rightarrow> nat"
  fs_existsSync :: "string \<Rightarrow> 'w \<Rightarrow> bool"
  fs_mkdirSync :: "string \<Rightarrow> 'w \<Rightarrow> js_error option \<times> 'w"

text \<open>
  The state a method runs in: the driver's selector, the outside world and the events
  so far. Methods are run one after the other, each to the settling of its promise
  (section 5 of the specification assumes sequential use).
\<close>

record 'w state =
  selector :: BucketSelector
  world :: 'w
  trace :: "event list"

text \<open>\<^verbatim>\<open>this._bucket.pull()\<close>\<close>

definition pull :: "'w state \<Rightarrow> string \<times> 'w state" where
  "pull s =
     (let (b, sel') = resolve (selector s)
      in (b, s\<lparr>selector := sel', trace := trace s @ [SelectorResolved b]\<rparr>))"

text \<open>One call on the storage client, with the callback's arguments as the result.\<close>

definition send :: "'w env \<Rightarrow> request \<Rightarrow> 'w state \<Rightarrow> reply \<times> 'w state" where
  "send env rq s =
     (let (r, w') = backend env rq (world s)
      in (r, s\<lparr>world := w', trace := trace s @ [Outbound rq]\<rparr>))"

section \<open>The driver\<close>

text \<open>\<^verbatim>\<open>bucket (bucket) { this._bucket.set(bucket); return this }\<close>\<close>

definition bucket :: "string \<Rightarrow> 'w state \<Rightarrow> 'w state" where
  "bucket b s = s\<lparr>selector := setOverride b (selector s)\<rparr>"

definition exists :: "'w env \<Rightarrow> string \<Rightarrow> 'w state \<Rightarrow> js_value promise \<times> 'w state" where
  "exists env location s =
     (let (b, s1) = pull s;
          (r, s2) = send env (ReqExists b location) s1
      in case reply_error r of
           Some error \<Rightarrow> (Rejected error, s2)
         | None \<Rightarrow> (Resolved (reply_data r), s2))"

text \<open>
  \<^verbatim>\<open>bucket = bucket || this._bucket.pull()\<close>: an absent argument and the empty string are
  both falsy, and only then is the selector resolved.
\<close>

definition getUrl :: "string \<Rightarrow> string option \<Rightarrow> 'w state \<Rightarrow> string \<times> 'w state" where
  "getUrl location bucket_arg s =
     (let (b, s1) = (case bucket_arg of
                       None \<Rightarrow> pull s
                     | Some x \<Rightarrow> if x \<noteq> [] then (x, s) else pull s)
      in (''https://storage.googleapis.com/'' @ b @ ''/'' @ location, s1))"

text \<open>
  \<^verbatim>\<open>options = {}\<close> in a parameter list: an omitted argument becomes the empty object.
\<close>

definition default_options :: "options option \<Rightarrow> options" where
  "default_options opt = (case opt of None \<Rightarrow> Map.empty | Some obj \<Rightarrow> obj)"

text \<open>
  \<^verbatim>\<open>destBucket || bucket\<close> on an optional string argument: the argument when it is
  truthy (present and not the empty string), else the right-hand side.
\<close>

definition or_else :: "string option \<Rightarrow> string \<Rightarrow> string" where
  "or_else arg fallback =
     (case arg of
        None \<Rightarrow> fallback
      | Some x \<Rightarrow> if x \<noteq> [] then x else fallback)"

definition getSignedUrl ::
  "'w env \<Rightarrow> string \<Rightarrow> js_value \<Rightarrow> 'w state \<Rightarrow> js_value promise \<times> 'w state" where
  "getSignedUrl env location expiry s =
     (let opts = [''action'' \<mapsto> JString ''read'', ''expires'' \<mapsto> expiry];
          (b, s1) = pull s;
          (r, s2) = send env (ReqGetSignedUrl b location opts) s1
      in case reply_error r of
           Some error \<Rightarrow> (Rejected error, s2)
         | None \<Rightarrow> (Resolved (reply_data r), s2))"

text \<open>
  \<^verbatim>\<open>put\<close>: the upload goes to \<^verbatim>\<open>this._bucket.pull()\<close>; in the callback the URL is
  \<^verbatim>\<open>this.getUrl(location, this._bucket.pull())\<close>, whose argument is evaluated first.
\<close>

definition put ::
  "'w env \<Rightarrow> string \<Rightarrow> string \<Rightarrow> options option \<Rightarrow> 'w state \<Rightarrow> js_value promise \<times> 'w state" where
  "put env location content options_arg s =
     (let clonedOptions = default_options options_arg
            ++ [''destination'' \<mapsto> JString location,
                ''contentType'' \<mapsto> mime_lookup env location];
          (b, s1) = pull s;
          (r, s2) = send env (ReqUpload b content clonedOptions) s1
      in case reply_error r of
           Some error \<Rightarrow> (Rejected error, s2)
         | None \<Rightarrow>
             (let (b2, s3) = pull s2;
                  (url, s4) = getUrl location (Some b2) s3
              in (Resolved (JString url), s4)))"

definition delete :: "'w env \<Rightarrow> string \<Rightarrow> 'w state \<Rightarrow> js_value promise \<times> 'w state" where
  "delete env location s =
     (let (b, s1) = pull s;
          (r, s2) = send env (ReqDelete b location) s1
      in case reply_error r of
           Some error \<Rightarrow> (Rejected error, s2)
         | None \<Rightarrow> (Resolved (JBool True), s2))"

definition makePublic :: "'w env \<Rightarrow> string \<Rightarrow> 'w state \<Rightarrow> js_value promise \<times> 'w state" where
  "makePublic env location s =
     (let (b, s1) = pull s;
          (r, s2) = send env (ReqMakePublic b location) s1
      in case reply_error r of
           Some error \<Rightarrow> (Rejected error, s2)
         | None \<Rightarrow> (Resolved (JBool True), s2))"

definition makePrivate :: "'w env \<Rightarrow> string \<Rightarrow> 'w state \<Rightarrow> js_value promise \<times> 'w state" where
  "makePrivate env location s =
     (let (b, s1) = pull s;
          (r, s2) = send env (ReqMakePrivate b location) s1
      in case reply_error r of
           Some error \<Rightarrow> (Rejected error, s2)
         | None \<Rightarrow> (Resolved (JBool True), s2))"

text \<open>
  \<^verbatim>\<open>copy\<close>: \<^verbatim>\<open>const bucket = this._bucket.pull()\<close>, \<^verbatim>\<open>destBucket = destBucket || bucket\<close>,
  the client's copy, and in its callback either \<^verbatim>\<open>this.makePublic(dest)\<close> followed by
  \<^verbatim>\<open>resolve(this.getUrl(dest, destBucket))\<close> or \<^verbatim>\<open>reject(err)\<close>, or the URL at once.
\<close>

definition copy ::
  "'w env \<Rightarrow> string \<Rightarrow> string \<Rightarrow> string option \<Rightarrow> options option \<Rightarrow> 'w state
    \<Rightarrow> js_value promise \<times> 'w state" where
  "copy env src dest destBucket_arg options_arg s =
     (let opts = default_options options_arg;
          (b, s1) = pull s;
          destBucket = or_else destBucket_arg b;
          (r, s2) = send env (ReqCopy b src destBucket dest opts) s1
      in case reply_error r of
           Some error \<Rightarrow> (Rejected error, s2)
         | None \<Rightarrow>
             if opts ''public'' = Some (JBool True) then
               (case makePublic env dest s2 of
                  (Resolved data, s3) \<Rightarrow>
                    (let (url, s4) = getUrl dest (Some destBucket) s3
                     in (Resolved (JString url), s4))
                | (Rejected err, s3) \<Rightarrow> (Rejected err, s3))
             else
               (let (url, s3) = getUrl dest (Some destBucket) s2
                in (Resolved (JString url), s3)))"

definition move ::
  "'w env \<Rightarrow> string \<Rightarrow> string \<Rightarrow> string option \<Rightarrow> options option \<Rightarrow> 'w state
    \<Rightarrow> js_value promise \<times> 'w state" where
  "move env src dest destBucket_arg options_arg s =
     (let opts = default_options options_arg;
          (b, s1) = pull s;
          destBucket = or_else destBucket_arg b;
          (r, s2) = send env (ReqMove b src destBucket dest opts) s1
      in case reply_error r of
           Some error \<Rightarrow> (Rejected error, s2)
         | None \<Rightarrow>
             if opts ''public'' = Some (JBool True) then
               (case makePublic env dest s2 of
                  (Resolved data, s3) \<Rightarrow>
                    (let (url, s4) = getUrl dest (Some destBucket) s3
                     in (Resolved (JString url), s4))
                | (Rejected err, s3) \<Rightarrow> (Rejected err, s3))
             else
               (let (url, s3) = getUrl dest (Some destBucket) s2
                in (Resolved (JString url), s3)))"

text \<open>
  The callback that \<^verbatim>\<open>copy\<close> and \<^verbatim>\<open>move\<close> hand to the client, on its own: the two
  methods have the same callback. It is applied to what the client answered and to the
  state at that time; \<open>copy_eq\<close> and \<open>move_eq\<close> below show that the methods are
  their request followed by this callback.
\<close>

definition transfer_callback ::
  "'w env \<Rightarrow> string \<Rightarrow> string \<Rightarrow> options \<Rightarrow> reply \<Rightarrow> 'w state
    \<Rightarrow> js_value promise \<times> 'w state" where
  "transfer_callback env dest destBucket opts r s2 =
     (case reply_error r of
           Some error \<Rightarrow> (Rejected error, s2)
         | None \<Rightarrow>
             if opts ''public'' = Some (JBool True) then
               (case makePublic env dest s2 of
                  (Resolved data, s3) \<Rightarrow>
                    (let (url, s4) = getUrl dest (Some destBucket) s3
                     in (Resolved (JString url), s4))
                | (Rejected err, s3) \<Rightarrow> (Rejected err, s3))
             else
               (let (url, s3) = getUrl dest (Some destBucket) s2
                in (Resolved (JString url), s3)))"

text \<open>
  \<^verbatim>\<open>getStream\<close> is not a promise: it returns the client's stream, or throws what the
  client throws (\<open>Inl\<close>).
\<close>

definition getStream :: "'w env \<Rightarrow> string \<Rightarrow> 'w state \<Rightarrow> (js_error + js_value) \<times> 'w state" where
  "getStream env location s =
     (let (b, s1) = pull s;
          (r, s2) = send env (ReqCreateReadStream b location) s1
      in case reply_error r of
           Some error \<Rightarrow> (Inl error, s2)
         | None \<Rightarrow> (Inr (reply_data r), s2))"

definition getObject :: "'w env \<Rightarrow> string \<Rightarrow> 'w state \<Rightarrow> js_value promise \<times> 'w state" where
  "getObject env location s =
     (let (b, s1) = pull s;
          (r, s2) = send env (ReqGet b location) s1
      in case reply_error r of
           Some error \<Rightarrow> (Rejected error, s2)
         | None \<Rightarrow> (Resolved (reply_data r), s2))"

text \<open>
  A time value inside a template literal is printed in decimal. The clock is read as a
  natural number: the milliseconds since the epoch of a present-day clock.
\<close>

definition digit_char :: "nat \<Rightarrow> char" where
  "digit_char d = ''0123456789'' ! d"

fun number_toString :: "nat \<Rightarrow> string" where
  "number_toString n =
     (if n < 10 then [digit_char n]
      else number_toString (n div 10) @ [digit_char (n mod 10)])"

declare number_toString.simps [simp del]

definition existsSync :: "'w env \<Rightarrow> string \<Rightarrow> 'w state \<Rightarrow> bool \<times> 'w state" where
  "existsSync env path s =
     (fs_existsSync env path (world s), s\<lparr>trace := trace s @ [FsExistsSync path]\<rparr>)"

definition mkdirSync :: "'w env \<Rightarrow> string \<Rightarrow> 'w state \<Rightarrow> js_error option \<times> 'w state" where
  "mkdirSync env path s =
     (let (thrown, w') = fs_mkdirSync env path (world s)
      in (thrown, s\<lparr>world := w', trace := trace s @ [FsMkdirSync path]\<rparr>))"

text \<open>
  \<^verbatim>\<open>download\<close>: the destination is built first, then the directory is looked for and made
  when absent; an exception of \<^verbatim>\<open>fs.mkdirSync\<close> leaves the method before any promise is
  made (\<open>Inl\<close>).
\<close>

definition download ::
  "'w env \<Rightarrow> string \<Rightarrow> 'w state \<Rightarrow> (js_error + js_value promise) \<times> 'w state" where
  "download env location s =
     (let dir = ''tmp'';
          now = clock env (world s);
          s0 = s\<lparr>trace := trace s @ [ClockRead now]\<rparr>;
          dest = dir @ ''/'' @ number_toString now @ ''-'' @ location;
          (present, s1) = existsSync env dir s0;
          (thrown, s2) = (if \<not> present then mkdirSync env dir s1 else (None, s1))
      in case thrown of
           Some e \<Rightarrow> (Inl e, s2)
         | None \<Rightarrow>
             (let (b, s3) = pull s2;
                  (r, s4) = send env (ReqDownload b location dest) s3
              in case reply_error r of
                   Some error \<Rightarrow> (Inr (Rejected error), s4)
                 | None \<Rightarrow> (Inr (Resolved (JString dest)), s4)))"

text \<open>
  The state after one resolution of the selector and the request \<open>rq\<close> sent next: that
  is where the callback of a copy or move starts, and where \<^verbatim>\<open>makePublic\<close> ends.
\<close>

definition after_request :: "'w env \<Rightarrow> request \<Rightarrow> 'w state \<Rightarrow> 'w state" where
  "after_request env rq s =
     s\<lparr>selector := snd (resolve (selector s)),
       world := snd (backend env rq (world s)),
       trace := trace s @ [SelectorResolved (fst (resolve (selector s))), Outbound rq]\<rparr>"

section \<open>Operations as values\<close>

text \<open>
  The methods of the driver other than \<^verbatim>\<open>bucket\<close>, each with its arguments, and the
  state a call leaves behind once it has settled. They serve to speak of every operation,
  and of operations run one after the other.
\<close>

datatype call =
    Exists string
  | GetUrl string "string option"
  | GetSignedUrl string js_value
  | Put string string "options option"
  | Delete string
  | Copy string string "string option" "options option"
  | Move string string "string option" "options option"
  | MakePublic string
  | MakePrivate string
  | GetStream string
  | GetObject string
  | Download string

fun perform :: "'w env \<Rightarrow> call \<Rightarrow> 'w state \<Rightarrow> 'w state" where
  "perform env (Exists location) s = snd (exists env location s)"
| "perform env (GetUrl location bucket_arg) s = snd (getUrl location bucket_arg s)"
| "perform env (GetSignedUrl location expiry) s = snd (getSignedUrl env location expiry s)"
| "perform env (Put location content options_arg) s = snd (put env location content options_arg s)"
| "perform env (Delete location) s = snd (delete env location s)"
| "perform env (Copy src dest destBucket_arg options_arg) s =
     snd (copy env src dest destBucket_arg options_arg s)"
| "perform env (Move src dest destBucket_arg options_arg) s =
     snd (move env src dest destBucket_arg options_arg s)"
| "perform env (MakePublic location) s = snd (makePublic env location s)"
| "perform env (MakePrivate location) s = snd (makePrivate env location s)"
| "perform env (GetStream location) s = snd (getStream env location s)"
| "perform env (GetObject location) s = snd (getObject env location s)"
| "perform env (Download location) s = snd (download env location s)"

section \<open>Reading a trace\<close>

text \<open>The buckets the selector returned, and the requests sent, each in order.\<close>

fun resolutions :: "event list \<Rightarrow> string list" where
  "resolutions [] = []"
| "resolutions (SelectorResolved b # es) = b # resolutions es"
| "resolutions (e # es) = resolutions es"

fun requests :: "event list \<Rightarrow> request list" where
  "requests [] = []"
| "requests (Outbound rq # es) = rq # requests es"
| "requests (e # es) = requests es"

text \<open>
  A list of resolved buckets is one-shot when its first entry, if there is one, is
  \<open>first\<close> and all the others are \<open>later\<close>.
\<close>

definition one_shot :: "string \<Rightarrow> string \<Rightarrow> string list \<Rightarrow> bool" where
  "one_shot first later rs =
     (case rs of [] \<Rightarrow> True | r # rest \<Rightarrow> r = first \<and> list_all (\<lambda>x. x = later) rest)"

text \<open>
  A state \<open>s'\<close> advances \<open>s\<close> when its trace extends that of \<open>s\<close>, the
  resolutions added are one-shot (first what the selector of \<open>s\<close> resolves to, then its
  default), and the selector is that of \<open>s\<close>, resolved if there was a resolution.
\<close>

definition advances :: "'w state \<Rightarrow> 'w state \<Rightarrow> bool" where
  "advances s s' =
     (take (length (trace s)) (trace s') = trace s \<and>
      one_shot (fst (resolve (selector s))) (defaultBucket (selector s))
        (resolutions (drop (length (trace s)) (trace s'))) \<and>
      selector s' =
        (if resolutions (drop (length (trace s)) (trace s')) = [] then selector s
         else snd (resolve (selector s))))"

section \<open>Concrete runs\<close>

text \<open>
  A driver just constructed with \<^verbatim>\<open>config.bucket = 'd'\<close>, a storage client and file
  system where every call succeeds and the directory \<^verbatim>\<open>tmp\<close> is absent, and a client
  that refuses every change of ACL.
\<close>

definition adapter0 :: "unit state" where
  "adapter0 =
     \<lparr>selector = \<lparr>defaultBucket = ''d'', pendingOverride = None\<rparr>, world = (), trace = []\<rparr>"

definition client_ok :: "unit env" where
  "client_ok =
     \<lparr>backend = (\<lambda>rq w. (\<lparr>reply_error = None, reply_data = JBool True\<rparr>, w)),
      mime_lookup = (\<lambda>location. JString ''text/plain''),
      clock = (\<lambda>w. 1700000000123),
      fs_existsSync = (\<lambda>path w. False),
      fs_mkdirSync = (\<lambda>path w. (None, w))\<rparr>"

definition client_acl_denied :: "unit env" where
  "client_acl_denied =
     client_ok\<lparr>backend := (\<lambda>rq w.
        case rq of
          ReqMakePublic b location \<Rightarrow>
            (\<lparr>reply_error = Some (Error ''forbidden''), reply_data = JUndefined\<rparr>, w)
        | _ \<Rightarrow> (\<lparr>reply_error = None, reply_data = JBool True\<rparr>, w))\<rparr>"

text \<open>
  A client that refuses a bucket without a name and carries out every other request.
\<close>

definition client_named_buckets :: "unit env" where
  "client_named_buckets =
     client_ok\<lparr>backend := (\<lambda>rq w.
        if names_empty_bucket rq then
          (\<lparr>reply_error = Some (Error ''A bucket name is needed to use Cloud Storage.''),
            reply_data = JUndefined\<rparr>, w)
        else (\<lparr>reply_error = None, reply_data = JBool True\<rparr>, w))\<rparr>"

section \<open>Unfolding the primitives\<close>

lemma pull_eq:
  "pull s =
     (fst (resolve (selector s)),
      s\<lparr>selector := snd (resolve (selector s)),
        trace := trace s @ [SelectorResolved (fst (resolve (selector s)))]\<rparr>)"
  by (simp add: pull_def split_def Let_def)

lemma send_eq:
  "send env rq s =
     (fst (backend env rq (world s)),
      s\<lparr>world := snd (backend env rq (world s)), trace := trace s @ [Outbound rq]\<rparr>)"
  by (simp add: send_def split_def Let_def)

lemma resolve_again: "fst (resolve (snd (resolve sel))) = defaultBucket sel"
  by (simp add: resolve_def split: option.splits)

lemma resolve_settled: "snd (resolve (snd (resolve sel))) = snd (resolve sel)"
  by (simp add: resolve_def split: option.splits)

lemma resolve_keeps_default: "defaultBucket (snd (resolve sel)) = defaultBucket sel"
  by (simp add: resolve_def split: option.splits)

lemma resolutions_append: "resolutions (xs @ ys) = resolutions xs @ resolutions ys"
  by (induction xs rule: resolutions.induct) simp_all

section \<open>Decimal digits\<close>

lemma digit_char_digit: "d < 10 \<Longrightarrow> digit_char d \<in> set ''0123456789''"
  unfolding digit_char_def by (rule nth_mem) simp

lemma number_toString_digits: "set (number_toString n) \<subseteq> set ''0123456789''"
proof (induction n rule: number_toString.induct)
  case (1 n)
  show ?case
  proof (cases "n < 10")
    case True
    then show ?thesis using digit_char_digit [of n]
      by (subst number_toString.simps) simp
  next
    case False
    have "digit_char (n mod 10) \<in> set ''0123456789''"
      by (rule digit_char_digit) simp
    with False 1 show ?thesis
      by (subst number_toString.simps) simp
  qed
qed

lemma number_toString_nonempty: "number_toString n \<noteq> []"
  by (subst number_toString.simps) simp

section \<open>Copy and move as a request and a callback\<close>

lemma copy_eq:
  "copy env src dest destBucket_arg options_arg s =
     (let opts = default_options options_arg;
          (b, s1) = pull s;
          destBucket = or_else destBucket_arg b;
          (r, s2) = send env (ReqCopy b src destBucket dest opts) s1
      in transfer_callback env dest destBucket opts r s2)"
  unfolding copy_def transfer_callback_def by (rule refl)

lemma move_eq:
  "move env src dest destBucket_arg options_arg s =
     (let opts = default_options options_arg;
          (b, s1) = pull s;
          destBucket = or_else destBucket_arg b;
          (r, s2) = send env (ReqMove b src destBucket dest opts) s1
      in transfer_callback env dest destBucket opts r s2)"
  unfolding move_def transfer_callback_def by (rule refl)

lemma copy_run:
  "copy env src dest destBucket_arg options_arg s =
     (let b = fst (resolve (selector s));
          rq = ReqCopy b src (or_else destBucket_arg b) dest (default_options options_arg)
      in transfer_callback env dest (or_else destBucket_arg b) (default_options options_arg)
           (fst (backend env rq (world s))) (after_request env rq s))"
  unfolding copy_eq by (simp add: pull_eq send_eq after_request_def Let_def)

lemma move_run:
  "move env src dest destBucket_arg options_arg s =
     (let b = fst (resolve (selector s));
          rq = ReqMove b src (or_else destBucket_arg b) dest (default_options options_arg)
      in transfer_callback env dest (or_else destBucket_arg b) (default_options options_arg)
           (fst (backend env rq (world s))) (after_request env rq s))"
  unfolding move_eq by (simp add: pull_eq send_eq after_request_def Let_def)

lemma makePublic_run:
  "makePublic env location s =
     (case reply_error (fst (backend env (ReqMakePublic (fst (resolve (selector s))) location)
                          (world s))) of
        Some error \<Rightarrow> Rejected error
      | None \<Rightarrow> Resolved (JBool True),
      after_request env (ReqMakePublic (fst (resolve (selector s))) location) s)"
  by (simp add: makePublic_def pull_eq send_eq after_request_def split_def Let_def
      split: option.splits)

lemma getUrl_nonempty:
  "b \<noteq> [] \<Longrightarrow>
   getUrl location (Some b) s = (''https://storage.googleapis.com/'' @ b @ ''/'' @ location, s)"
  by (simp add: getUrl_def)

lemma getUrl_trace: "\<exists>es. trace (snd (getUrl location bucket_arg s)) = trace s @ es"
  by (cases bucket_arg) (simp_all add: getUrl_def pull_eq split_def Let_def)

lemma transfer_callback_rejected:
  "reply_error r = Some e \<Longrightarrow> transfer_callback env dest destBucket opts r s = (Rejected e, s)"
  by (simp add: transfer_callback_def)

lemma transfer_callback_plain:
  "reply_error r = None \<Longrightarrow> opts ''public'' \<noteq> Some (JBool True) \<Longrightarrow>
   transfer_callback env dest destBucket opts r s =
     (Resolved (JString (fst (getUrl dest (Some destBucket) s))),
      snd (getUrl dest (Some destBucket) s))"
  by (simp add: transfer_callback_def split_def Let_def)

lemma transfer_callback_public_failed:
  "reply_error r = None \<Longrightarrow> opts ''public'' = Some (JBool True) \<Longrightarrow>
   fst (makePublic env dest s) = Rejected e \<Longrightarrow>
   transfer_callback env dest destBucket opts r s = (Rejected e, snd (makePublic env dest s))"
  by (cases "makePublic env dest s") (simp add: transfer_callback_def)

lemma transfer_callback_public_done:
  "reply_error r = None \<Longrightarrow> opts ''public'' = Some (JBool True) \<Longrightarrow>
   fst (makePublic env dest s) = Resolved data \<Longrightarrow>
   transfer_callback env dest destBucket opts r s =
     (Resolved (JString (fst (getUrl dest (Some destBucket) (snd (makePublic env dest s))))),
      snd (getUrl dest (Some destBucket) (snd (makePublic env dest s))))"
  by (cases "makePublic env dest s") (simp add: transfer_callback_def split_def Let_def)

lemma transfer_callback_cases:
  obtains (rejected) e where "reply_error r = Some e"
      and "transfer_callback env dest destBucket opts r s = (Rejected e, s)"
    | (plain) "reply_error r = None" and "opts ''public'' \<noteq> Some (JBool True)"
      and "transfer_callback env dest destBucket opts r s =
             (Resolved (JString (fst (getUrl dest (Some destBucket) s))),
              snd (getUrl dest (Some destBucket) s))"
    | (public_failed) e where "reply_error r = None" and "opts ''public'' = Some (JBool True)"
      and "fst (makePublic env dest s) = Rejected e"
      and "transfer_callback env dest destBucket opts r s = (Rejected e, snd (makePublic env dest s))"
    | (public_done) data where "reply_error r = None" and "opts ''public'' = Some (JBool True)"
      and "fst (makePublic env dest s) = Resolved data"
      and "transfer_callback env dest destBucket opts r s =
             (Resolved (JString (fst (getUrl dest (Some destBucket) (snd (makePublic env dest s))))),
              snd (getUrl dest (Some destBucket) (snd (makePublic env dest s))))"
proof (cases "reply_error r")
  case (Some e)
  then show ?thesis using rejected transfer_callback_rejected by blast
next
  case None
  show ?thesis
  proof (cases "opts ''public'' = Some (JBool True)")
    case False
    with None show ?thesis using plain transfer_callback_plain by blast
  next
    case True
    show ?thesis
    proof (cases "fst (makePublic env dest s)")
      case (Resolved data)
      with None True show ?thesis using public_done transfer_callback_public_done by blast
    next
      case (Rejected e)
      with None True show ?thesis using public_failed transfer_callback_public_failed by blast
    qed
  qed
qed

lemma transfer_callback_url:
  assumes "destBucket \<noteq> []"
    and "fst (transfer_callback env dest destBucket opts r s) = Resolved v"
  shows "v = JString (''https://storage.googleapis.com/'' @ destBucket @ ''/'' @ dest)"
  using assms(2)
  by (cases rule: transfer_callback_cases [of r env dest destBucket opts s])
     (simp_all add: getUrl_nonempty [OF assms(1)])

lemma transfer_callback_trace:
  "\<exists>es. trace (snd (transfer_callback env dest destBucket opts r s)) = trace s @ es"
proof (cases rule: transfer_callback_cases [of r env dest destBucket opts s])
  case (rejected e)
  then show ?thesis by simp
next
  case plain
  then show ?thesis using getUrl_trace [of dest "Some destBucket" s] by simp
next
  case (public_failed e)
  then show ?thesis by (simp add: makePublic_run after_request_def)
next
  case (public_done data)
  obtain es where "trace (snd (getUrl dest (Some destBucket) (snd (makePublic env dest s))))
      = trace (snd (makePublic env dest s)) @ es"
    using getUrl_trace by blast
  with public_done show ?thesis by (simp add: makePublic_run after_request_def)
qed

lemma transfer_starts:
  "\<exists>rest. trace (snd (copy env src dest destBucket_arg opts s)) =
      trace s @ [SelectorResolved (fst (resolve (selector s))),
                 Outbound (ReqCopy (fst (resolve (selector s))) src
                   (or_else destBucket_arg (fst (resolve (selector s)))) dest
                   (default_options opts))] @ rest"
  "\<exists>rest. trace (snd (move env src dest destBucket_arg opts s)) =
      trace s @ [SelectorResolved (fst (resolve (selector s))),
                 Outbound (ReqMove (fst (resolve (selector s))) src
                   (or_else destBucket_arg (fst (resolve (selector s)))) dest
                   (default_options opts))] @ rest"
proof -
  have "\<exists>rest. trace (snd (transfer_callback env dest db (default_options opts) r
            (after_request env rq s))) =
          trace s @ [SelectorResolved (fst (resolve (selector s))), Outbound rq] @ rest"
    for db r rq
    using transfer_callback_trace [of env dest db "default_options opts" r "after_request env rq s"]
    by (simp add: after_request_def)
  then show
    "\<exists>rest. trace (snd (copy env src dest destBucket_arg opts s)) =
      trace s @ [SelectorResolved (fst (resolve (selector s))),
                 Outbound (ReqCopy (fst (resolve (selector s))) src
                   (or_else destBucket_arg (fst (resolve (selector s)))) dest
                   (default_options opts))] @ rest"
    "\<exists>rest. trace (snd (move env src dest destBucket_arg opts s)) =
      trace s @ [SelectorResolved (fst (resolve (selector s))),
                 Outbound (ReqMove (fst (resolve (selector s))) src
                   (or_else destBucket_arg (fst (resolve (selector s)))) dest
                   (default_options opts))] @ rest"
    unfolding copy_run move_run Let_def by blast+
qed

section \<open>Every operation keeps the override one-shot\<close>

lemma advancesI:
  assumes "trace s' = trace s @ es"
    and "one_shot (fst (resolve (selector s))) (defaultBucket (selector s)) (resolutions es)"
    and "selector s' = (if resolutions es = [] then selector s else snd (resolve (selector s)))"
  shows "advances s s'"
  using assms by (simp add: advances_def)

lemma advancesD:
  assumes "advances s s'"
  obtains es where "trace s' = trace s @ es"
    and "defaultBucket (selector s') = defaultBucket (selector s)"
    and "one_shot (fst (resolve (selector s))) (defaultBucket (selector s)) (resolutions es)"
    and "selector s' = (if resolutions es = [] then selector s else snd (resolve (selector s)))"
proof -
  let ?es = "drop (length (trace s)) (trace s')"
  from assms have prefix: "take (length (trace s)) (trace s') = trace s"
    and shot: "one_shot (fst (resolve (selector s))) (defaultBucket (selector s)) (resolutions ?es)"
    and sel: "selector s' = (if resolutions ?es = [] then selector s else snd (resolve (selector s)))"
    unfolding advances_def by blast+
  have same_default: "defaultBucket (selector s') = defaultBucket (selector s)"
    unfolding sel by (simp add: resolve_keeps_default)
  have "trace s' = trace s @ ?es"
    using prefix by (metis append_take_drop_id)
  then show thesis
    using same_default shot sel by (rule that)
qed

lemma advances_refl: "advances s s"
  by (rule advancesI [where es = "[]"]) (simp_all add: one_shot_def)

lemma one_shot_append:
  "one_shot a d xs \<Longrightarrow> xs \<noteq> [] \<Longrightarrow> one_shot d d ys \<Longrightarrow> one_shot a d (xs @ ys)"
  by (cases xs; cases ys) (auto simp add: one_shot_def)

lemma advances_trans:
  assumes "advances s s'" and "advances s' s''"
  shows "advances s s''"
proof -
  from assms(1) obtain es where 1: "trace s' = trace s @ es"
    "defaultBucket (selector s') = defaultBucket (selector s)"
    "one_shot (fst (resolve (selector s))) (defaultBucket (selector s)) (resolutions es)"
    "selector s' = (if resolutions es = [] then selector s else snd (resolve (selector s)))"
    by (rule advancesD)
  from assms(2) obtain es' where 2: "trace s'' = trace s' @ es'"
    "defaultBucket (selector s'') = defaultBucket (selector s')"
    "one_shot (fst (resolve (selector s'))) (defaultBucket (selector s')) (resolutions es')"
    "selector s'' = (if resolutions es' = [] then selector s' else snd (resolve (selector s')))"
    by (rule advancesD)
  show ?thesis
  proof (rule advancesI [where es = "es @ es'"])
    show "trace s'' = trace s @ es @ es'" using 1 2 by simp
    show "one_shot (fst (resolve (selector s))) (defaultBucket (selector s)) (resolutions (es @ es'))"
    proof (cases "resolutions es = []")
      case True
      with 1 2 show ?thesis by (simp add: resolutions_append)
    next
      case False
      with 1 2 show ?thesis
        by (simp add: resolutions_append one_shot_append resolve_again resolve_keeps_default)
    qed
    show "selector s'' =
        (if resolutions (es @ es') = [] then selector s else snd (resolve (selector s)))"
      using 1 2 by (simp add: resolutions_append resolve_settled)
  qed
qed

lemma advances_pull: "advances s (snd (pull s))"
  by (rule advancesI [where es = "[SelectorResolved (fst (resolve (selector s)))]"])
     (simp_all add: pull_eq one_shot_def resolve_keeps_default)

lemma advances_send: "advances s (snd (send env rq s))"
  by (rule advancesI [where es = "[Outbound rq]"]) (simp_all add: send_eq one_shot_def)

lemma advances_after_request: "advances s (after_request env rq s)"
  by (rule advancesI [where es = "[SelectorResolved (fst (resolve (selector s))), Outbound rq]"])
     (simp_all add: after_request_def one_shot_def resolve_keeps_default)


lemma advances_getUrl: "advances s (snd (getUrl location bucket_arg s))"
proof (cases "\<exists>x. bucket_arg = Some x \<and> x \<noteq> []")
  case True
  then show ?thesis by (auto simp add: getUrl_nonempty advances_refl)
next
  case False
  then have "snd (getUrl location bucket_arg s) = snd (pull s)"
    by (cases bucket_arg) (simp_all add: getUrl_def split_def Let_def)
  then show ?thesis by (simp add: advances_pull)
qed

lemma exists_state:
  "snd (exists env location s) =
     after_request env (ReqExists (fst (resolve (selector s))) location) s"
  by (simp add: exists_def pull_eq send_eq after_request_def split_def Let_def
      split: option.splits)

lemma getSignedUrl_state:
  "snd (getSignedUrl env location expiry s) =
     after_request env (ReqGetSignedUrl (fst (resolve (selector s))) location
       [''action'' \<mapsto> JString ''read'', ''expires'' \<mapsto> expiry]) s"
  by (simp add: getSignedUrl_def pull_eq send_eq after_request_def split_def Let_def
      split: option.splits)

lemma delete_state:
  "snd (delete env location s) =
     after_request env (ReqDelete (fst (resolve (selector s))) location) s"
  by (simp add: delete_def pull_eq send_eq after_request_def split_def Let_def
      split: option.splits)

lemma makePublic_state:
  "snd (makePublic env location s) =
     after_request env (ReqMakePublic (fst (resolve (selector s))) location) s"
  by (simp add: makePublic_run)

lemma makePrivate_state:
  "snd (makePrivate env location s) =
     after_request env (ReqMakePrivate (fst (resolve (selector s))) location) s"
  by (simp add: makePrivate_def pull_eq send_eq after_request_def split_def Let_def
      split: option.splits)

lemma getStream_state:
  "snd (getStream env location s) =
     after_request env (ReqCreateReadStream (fst (resolve (selector s))) location) s"
  by (simp add: getStream_def pull_eq send_eq after_request_def split_def Let_def
      split: option.splits)

lemma getObject_state:
  "snd (getObject env location s) =
     after_request env (ReqGet (fst (resolve (selector s))) location) s"
  by (simp add: getObject_def pull_eq send_eq after_request_def split_def Let_def
      split: option.splits)

lemma put_state:
  "snd (put env location content options_arg s) =
     (let rq = ReqUpload (fst (resolve (selector s))) content
                 (default_options options_arg
                    ++ [''destination'' \<mapsto> JString location,
                        ''contentType'' \<mapsto> mime_lookup env location]);
          s2 = after_request env rq s
      in case reply_error (fst (backend env rq (world s))) of
           Some error \<Rightarrow> s2
         | None \<Rightarrow> snd (getUrl location (Some (fst (pull s2))) (snd (pull s2))))"
  by (simp add: put_def pull_eq send_eq after_request_def split_def Let_def
      split: option.splits)

lemma advances_put: "advances s (snd (put env location content options_arg s))"
proof -
  let ?rq = "ReqUpload (fst (resolve (selector s))) content
                 (default_options options_arg
                    ++ [''destination'' \<mapsto> JString location,
                        ''contentType'' \<mapsto> mime_lookup env location])"
  let ?s2 = "after_request env ?rq s"
  have first: "advances s ?s2" by (rule advances_after_request)
  show ?thesis
  proof (cases "reply_error (fst (backend env ?rq (world s)))")
    case (Some error)
    with first show ?thesis by (simp add: put_state Let_def)
  next
    case None
    have "advances ?s2 (snd (pull ?s2))" by (rule advances_pull)
    moreover have "advances (snd (pull ?s2))
        (snd (getUrl location (Some (fst (pull ?s2))) (snd (pull ?s2))))"
      by (rule advances_getUrl)
    ultimately have "advances s (snd (getUrl location (Some (fst (pull ?s2))) (snd (pull ?s2))))"
      using first by (blast intro: advances_trans)
    with None show ?thesis by (simp add: put_state Let_def)
  qed
qed

lemma advances_transfer_callback:
  "advances s (snd (transfer_callback env dest destBucket opts r s))"
proof (cases rule: transfer_callback_cases [of r env dest destBucket opts s])
  case (rejected e)
  then show ?thesis by (simp add: advances_refl)
next
  case plain
  then show ?thesis by (simp add: advances_getUrl)
next
  case (public_failed e)
  then show ?thesis by (simp add: makePublic_state advances_after_request)
next
  case (public_done data)
  have "advances s (snd (makePublic env dest s))"
    by (simp add: makePublic_state advances_after_request)
  moreover have "advances (snd (makePublic env dest s))
      (snd (getUrl dest (Some destBucket) (snd (makePublic env dest s))))"
    by (rule advances_getUrl)
  ultimately show ?thesis
    using public_done by (auto intro: advances_trans)
qed

lemma advances_copy: "advances s (snd (copy env src dest destBucket_arg options_arg s))"
  unfolding copy_run Let_def
  by (rule advances_trans [OF advances_after_request advances_transfer_callback])

lemma advances_move: "advances s (snd (move env src dest destBucket_arg options_arg s))"
  unfolding move_run Let_def
  by (rule advances_trans [OF advances_after_request advances_transfer_callback])

lemma advances_quiet:
  "resolutions es = [] \<Longrightarrow> advances s (s\<lparr>world := w, trace := trace s @ es\<rparr>)"
  by (rule advancesI [where es = es]) (simp_all add: one_shot_def)

lemma advances_download: "advances s (snd (download env location s))"
proof -
  let ?now = "clock env (world s)"
  let ?s0 = "s\<lparr>trace := trace s @ [ClockRead ?now]\<rparr>"
  let ?s1 = "snd (existsSync env ''tmp'' ?s0)"
  have s1: "?s1 = s\<lparr>world := world s, trace := trace s @ [ClockRead ?now, FsExistsSync ''tmp'']\<rparr>"
    by (simp add: existsSync_def)
  have a1: "advances s ?s1"
    unfolding s1 by (rule advances_quiet) simp
  have made: "snd (mkdirSync env ''tmp'' t) =
      t\<lparr>world := snd (fs_mkdirSync env ''tmp'' (world t)),
        trace := trace t @ [FsMkdirSync ''tmp'']\<rparr>" for t :: "'a state"
    by (simp add: mkdirSync_def split_def Let_def)
  have a2: "advances ?s1 (snd (mkdirSync env ''tmp'' ?s1))"
    unfolding made by (rule advances_quiet) simp
  have tail: "advances t (snd (send env rq (snd (pull t))))" for t rq
    by (rule advances_trans [OF advances_pull advances_send])
  show ?thesis
  proof (cases "fs_existsSync env ''tmp'' (world s)")
    case True
    then have "snd (download env location s) =
        snd (send env (ReqDownload (fst (pull ?s1)) location
              (''tmp/'' @ number_toString ?now @ ''-'' @ location)) (snd (pull ?s1)))"
      by (simp add: download_def existsSync_def split_def Let_def split: option.splits)
    then show ?thesis
      using advances_trans [OF a1 tail] by simp
  next
    case False
    let ?s2 = "snd (mkdirSync env ''tmp'' ?s1)"
    have a12: "advances s ?s2" by (rule advances_trans [OF a1 a2])
    show ?thesis
    proof (cases "fst (mkdirSync env ''tmp'' ?s1)")
      case (Some e)
      with False have "snd (download env location s) = ?s2"
        by (simp add: download_def existsSync_def split_def Let_def)
      with a12 show ?thesis by simp
    next
      case None
      with False have "snd (download env location s) =
          snd (send env (ReqDownload (fst (pull ?s2)) location
                (''tmp/'' @ number_toString ?now @ ''-'' @ location)) (snd (pull ?s2)))"
        by (simp add: download_def existsSync_def split_def Let_def split: option.splits)
      then show ?thesis
        using advances_trans [OF a12 tail] by simp
    qed
  qed
qed

lemma advances_perform: "advances s (perform env c s)"
  by (cases c)
     (simp_all add: advances_getUrl advances_put advances_copy advances_move advances_download
        exists_state getSignedUrl_state delete_state makePublic_state makePrivate_state
        getStream_state getObject_state advances_after_request)

lemma advances_fold: "advances s (fold (perform env) calls s)"
proof (induction calls arbitrary: s)
  case Nil
  show ?case by (simp add: advances_refl)
next
  case (Cons c calls)
  have "advances s (perform env c s)" by (rule advances_perform)
  moreover have "advances (perform env c s) (fold (perform env) calls (perform env c s))"
    by (rule Cons.IH)
  ultimately show ?case by (auto intro: advances_trans)
qed

section \<open>URL construction\<close>

text \<open>
  Claim C2, as amended. For every location and every explicitly supplied, non-empty bucket
  name \<open>b\<close>, \<^verbatim>\<open>getUrl(location, b)\<close> returns exactly the string
  \<^verbatim>\<open>https://storage.googleapis.com/{b}/{location}\<close>: the two names are inserted as
  they are, with no escaping, and the call neither consults the storage client nor changes
  anything (selector, outside world and trace are as before), so the result cannot depend
  on whether the object exists or is public.
\<close>

theorem getUrl_explicit_bucket:
  "b \<noteq> [] \<Longrightarrow>
   getUrl location (Some b) s = (''https://storage.googleapis.com/'' @ b @ ''/'' @ location, s)"
  by (simp add: getUrl_def)

text \<open>The amended statement at a bucket and a location with a space and a slash.\<close>

theorem getUrl_explicit_bucket_witness:
  "''my-bucket'' \<noteq> [] \<and>
   getUrl ''dir/a b.txt'' (Some ''my-bucket'') adapter0
     = (''https://storage.googleapis.com/my-bucket/dir/a b.txt'', adapter0)"
  using getUrl_explicit_bucket [of "''my-bucket''" "''dir/a b.txt''" adapter0]
  by simp

text \<open>
  Claim C2 as stated fails for the empty bucket name: \<^verbatim>\<open>getUrl('a.txt', '')\<close> on a driver
  whose default bucket is \<^verbatim>\<open>d\<close> answers with the default bucket in the URL, not with
  the empty name that was supplied.
\<close>

theorem getUrl_empty_bucket_counterexample:
  "fst (getUrl ''a.txt'' (Some '''') adapter0) = ''https://storage.googleapis.com/d/a.txt'' \<and>
   fst (getUrl ''a.txt'' (Some '''') adapter0)
     \<noteq> ''https://storage.googleapis.com/'' @ '''' @ ''/'' @ ''a.txt''"
  by (simp add: getUrl_def pull_eq resolve_def adapter0_def)

section \<open>Falsy bucket arguments\<close>

text \<open>
  Claim C9. Bucket arguments are tested for truthiness, not for presence.
  \<^verbatim>\<open>getUrl(location, '')\<close> is \<^verbatim>\<open>getUrl(location)\<close>: the same URL and the same state
  afterwards, the bucket being the one the selector resolves to (and the selector having
  been resolved). \<^verbatim>\<open>copy(src, dest, '')\<close> and \<^verbatim>\<open>move(src, dest, '')\<close> are the calls
  without \<^verbatim>\<open>destBucket\<close>: same outcome and same state, and the request they send
  right after resolving the selector has the source bucket as its destination bucket.
\<close>

theorem empty_bucket_is_absent:
  "getUrl location (Some '''') s = getUrl location None s \<and>
   getUrl location None s =
     (''https://storage.googleapis.com/'' @ fst (resolve (selector s)) @ ''/'' @ location,
      snd (pull s)) \<and>
   copy env src dest (Some '''') opts s = copy env src dest None opts s \<and>
   move env src dest (Some '''') opts s = move env src dest None opts s \<and>
   (\<exists>rest. trace (snd (copy env src dest (Some '''') opts s)) =
      trace s @ [SelectorResolved (fst (resolve (selector s))),
                 Outbound (ReqCopy (fst (resolve (selector s))) src
                   (fst (resolve (selector s))) dest (default_options opts))] @ rest) \<and>
   (\<exists>rest. trace (snd (move env src dest (Some '''') opts s)) =
      trace s @ [SelectorResolved (fst (resolve (selector s))),
                 Outbound (ReqMove (fst (resolve (selector s))) src
                   (fst (resolve (selector s))) dest (default_options opts))] @ rest)"
proof -
  have url: "getUrl location (Some '''') s = getUrl location None s"
    by (simp add: getUrl_def)
  have fallback: "getUrl location None s =
     (''https://storage.googleapis.com/'' @ fst (resolve (selector s)) @ ''/'' @ location,
      snd (pull s))"
    by (simp add: getUrl_def pull_eq)
  have dest: "or_else (Some '''') x = x" "or_else None x = x" for x
    by (simp_all add: or_else_def)
  have same: "copy env src dest (Some '''') opts s = copy env src dest None opts s"
    "move env src dest (Some '''') opts s = move env src dest None opts s"
    by (simp_all add: copy_run move_run dest)
  show ?thesis
    using url fallback same transfer_starts [of env src dest "Some ''''" opts s]
    by (simp add: dest)
qed

section \<open>The pending override\<close>

text \<open>
  Claim C10. A call of \<^verbatim>\<open>getUrl\<close> with an explicit non-empty bucket leaves the selector
  as it was, whatever its state. In particular an override set by \<^verbatim>\<open>bucket(p)\<close> just
  before is still pending afterwards, and the next operation that resolves the selector
  (here \<^verbatim>\<open>exists\<close>) is sent to \<open>p\<close>.
\<close>

theorem getUrl_explicit_keeps_override:
  "b \<noteq> [] \<Longrightarrow>
   selector (snd (getUrl location (Some b) s)) = selector s \<and>
   pendingOverride (selector (snd (getUrl location (Some b) (bucket p s)))) = Some p \<and>
   trace (snd (exists env location' (snd (getUrl location (Some b) (bucket p s)))))
     = trace s @ [SelectorResolved p, Outbound (ReqExists p location')]"
  by (simp add: getUrl_nonempty exists_def bucket_def setOverride_def pull_eq send_eq
      resolve_def split_def Let_def split: option.splits)

theorem getUrl_explicit_keeps_override_witness:
  "''other'' \<noteq> [] \<and>
   pendingOverride (selector (snd (getUrl ''a.txt'' (Some ''other'') (bucket ''p'' adapter0))))
     = Some ''p'' \<and>
   trace (snd (exists client_ok ''b.txt''
       (snd (getUrl ''a.txt'' (Some ''other'') (bucket ''p'' adapter0)))))
     = [SelectorResolved ''p'', Outbound (ReqExists ''p'' ''b.txt'')]"
  using getUrl_explicit_keeps_override
    [of "''other''" "''a.txt''" adapter0 "''p''" client_ok "''b.txt''"]
  by (simp add: adapter0_def)

text \<open>
  Claim C3. After \<^verbatim>\<open>bucket(b)\<close>, whatever operations are then run one after the other
  with no call of \<^verbatim>\<open>bucket\<close> in between, the first resolution of the selector gives
  \<open>b\<close> and every later one gives the default bucket: the override serves one
  resolution and no more. So the next operation that resolves its bucket starts with
  \<open>b\<close>, and an operation after it finds the default. On \<^verbatim>\<open>exists\<close>, which resolves
  once: the first call is sent to \<open>b\<close>, the second to the default bucket, and no override
  is pending after either. In the selector itself, resolving after \<^verbatim>\<open>setOverride(b)\<close>
  gives \<open>b\<close> and leaves no override, and a selector without an override resolves to its
  default and stays as it is.
\<close>

theorem bucket_override_is_one_shot:
  "one_shot b (defaultBucket (selector s))
     (resolutions (drop (length (trace s))
        (trace (fold (perform env) calls (bucket b s))))) \<and>
   trace (snd (exists env location2 (snd (exists env location1 (bucket b s)))))
     = trace s @ [SelectorResolved b, Outbound (ReqExists b location1),
                  SelectorResolved (defaultBucket (selector s)),
                  Outbound (ReqExists (defaultBucket (selector s)) location2)] \<and>
   pendingOverride (selector (snd (exists env location1 (bucket b s)))) = None \<and>
   pendingOverride (selector (snd (exists env location2 (snd (exists env location1 (bucket b s))))))
     = None \<and>
   resolve (setOverride b sel) = (b, sel\<lparr>pendingOverride := None\<rparr>) \<and>
   resolve (sel\<lparr>pendingOverride := None\<rparr>) = (defaultBucket sel, sel\<lparr>pendingOverride := None\<rparr>)"
proof -
  have "advances (bucket b s) (fold (perform env) calls (bucket b s))"
    by (rule advances_fold)
  then have every: "one_shot b (defaultBucket (selector s))
     (resolutions (drop (length (trace s)) (trace (fold (perform env) calls (bucket b s)))))"
    by (simp add: advances_def bucket_def setOverride_def resolve_def)
  have twice: "trace (snd (exists env location2 (snd (exists env location1 (bucket b s)))))
     = trace s @ [SelectorResolved b, Outbound (ReqExists b location1),
                  SelectorResolved (defaultBucket (selector s)),
                  Outbound (ReqExists (defaultBucket (selector s)) location2)]"
    by (simp add: exists_state after_request_def bucket_def setOverride_def resolve_def)
  have cleared: "pendingOverride (selector (snd (exists env location1 (bucket b s)))) = None"
    "pendingOverride (selector (snd (exists env location2 (snd (exists env location1 (bucket b s))))))
       = None"
    by (simp_all add: exists_state after_request_def bucket_def setOverride_def resolve_def)
  have sel: "resolve (setOverride b sel) = (b, sel\<lparr>pendingOverride := None\<rparr>)"
    "resolve (sel\<lparr>pendingOverride := None\<rparr>) = (defaultBucket sel, sel\<lparr>pendingOverride := None\<rparr>)"
    by (simp_all add: setOverride_def resolve_def)
  show ?thesis
    using every twice cleared sel by blast
qed

text \<open>
  Claim C3 on \<^verbatim>\<open>bucket('b')\<close> followed by a \<^verbatim>\<open>put\<close>, a \<^verbatim>\<open>getUrl\<close> with an explicit
  bucket and an \<^verbatim>\<open>exists\<close>: the selector is resolved three times, to \<^verbatim>\<open>b\<close> and then
  twice to the default \<^verbatim>\<open>d\<close>.
\<close>

theorem bucket_override_is_one_shot_witness:
  "resolutions (trace (fold (perform client_ok)
       [Put ''a.txt'' ''/up/a.txt'' None, GetUrl ''a.txt'' (Some ''other''), Exists ''a.txt'']
       (bucket ''b'' adapter0)))
     = [''b'', ''d'', ''d''] \<and>
   one_shot ''b'' ''d'' [''b'', ''d'', ''d''] \<and>
   requests (trace (snd (exists client_ok ''y'' (snd (exists client_ok ''x'' (bucket ''b'' adapter0))))))
     = [ReqExists ''b'' ''x'', ReqExists ''d'' ''y'']"
proof -
  have run: "resolutions (trace (fold (perform client_ok)
       [Put ''a.txt'' ''/up/a.txt'' None, GetUrl ''a.txt'' (Some ''other''), Exists ''a.txt'']
       (bucket ''b'' adapter0)))
     = [''b'', ''d'', ''d'']"
    by (simp add: put_state exists_state getUrl_def after_request_def pull_eq bucket_def
        setOverride_def resolve_def adapter0_def client_ok_def Let_def)
  show ?thesis
    using bucket_override_is_one_shot [of "''b''" adapter0 client_ok
        "[Put ''a.txt'' ''/up/a.txt'' None, GetUrl ''a.txt'' (Some ''other''), Exists ''a.txt'']"
        "''y''" "''x''"] run
    by (simp add: adapter0_def)
qed

section \<open>Resolutions of the selector within one call\<close>

text \<open>
  Claim C1 says that an operation resolves the selector once, at the start, and never a
  second time. \<^verbatim>\<open>put\<close> does not: on a driver with default bucket \<^verbatim>\<open>d\<close>,
  \<^verbatim>\<open>bucket('b').put('a.txt', '/up/a.txt')\<close> with a successful upload resolves the selector
  for the upload (the override \<^verbatim>\<open>b\<close>) and again in the upload's callback, after the
  request (now the default \<^verbatim>\<open>d\<close>). The object goes to bucket \<^verbatim>\<open>b\<close> and the promise
  resolves to a URL in bucket \<^verbatim>\<open>d\<close>.
\<close>

theorem put_resolves_selector_twice:
  "fst (put client_ok ''a.txt'' ''/up/a.txt'' None (bucket ''b'' adapter0))
     = Resolved (JString ''https://storage.googleapis.com/d/a.txt'') \<and>
   trace (snd (put client_ok ''a.txt'' ''/up/a.txt'' None (bucket ''b'' adapter0)))
     = [SelectorResolved ''b'',
        Outbound (ReqUpload ''b'' ''/up/a.txt''
          [''destination'' \<mapsto> JString ''a.txt'', ''contentType'' \<mapsto> JString ''text/plain'']),
        SelectorResolved ''d'']"
  by (simp add: put_def getUrl_def bucket_def setOverride_def pull_eq send_eq resolve_def
      default_options_def adapter0_def client_ok_def split_def Let_def)

text \<open>
  The same for every successful \<^verbatim>\<open>put\<close> on a driver whose default bucket has a
  name: the selector is resolved twice, and the URL names the default bucket, whichever
  bucket the upload went to.
\<close>

lemma put_url_names_default_bucket:
  "reply_error (fst (backend env
      (ReqUpload (fst (resolve (selector s))) content
         (default_options options_arg
            ++ [''destination'' \<mapsto> JString location,
                ''contentType'' \<mapsto> mime_lookup env location]))
      (world s))) = None \<Longrightarrow>
   defaultBucket (selector s) \<noteq> [] \<Longrightarrow>
   fst (put env location content options_arg s) =
     Resolved (JString (''https://storage.googleapis.com/''
       @ defaultBucket (selector s) @ ''/'' @ location)) \<and>
   resolutions (drop (length (trace s)) (trace (snd (put env location content options_arg s))))
     = [fst (resolve (selector s)), defaultBucket (selector s)]"
  by (simp add: put_def pull_eq send_eq getUrl_nonempty resolve_again split_def Let_def)

section \<open>Copy and move\<close>

text \<open>
  Claim C4 says that the publicize step of \<^verbatim>\<open>copy\<close> and \<^verbatim>\<open>move\<close> targets \<^verbatim>\<open>dest\<close> in
  the destination bucket. It targets \<^verbatim>\<open>dest\<close> in whatever the selector resolves to when
  \<^verbatim>\<open>makePublic\<close> runs: on a driver with default bucket \<^verbatim>\<open>d\<close>,
  \<^verbatim>\<open>copy('a', 'b', 'other', { public: true })\<close> copies to bucket \<^verbatim>\<open>other\<close> and then
  asks for \<^verbatim>\<open>b\<close> in bucket \<^verbatim>\<open>d\<close> to be made public; \<^verbatim>\<open>move\<close> does the same.
\<close>

theorem publicize_targets_selector_bucket:
  "requests (trace (snd (copy client_ok ''a'' ''b'' (Some ''other'')
       (Some [''public'' \<mapsto> JBool True]) adapter0)))
     = [ReqCopy ''d'' ''a'' ''other'' ''b'' [''public'' \<mapsto> JBool True],
        ReqMakePublic ''d'' ''b''] \<and>
   requests (trace (snd (move client_ok ''a'' ''b'' (Some ''other'')
       (Some [''public'' \<mapsto> JBool True]) adapter0)))
     = [ReqMove ''d'' ''a'' ''other'' ''b'' [''public'' \<mapsto> JBool True],
        ReqMakePublic ''d'' ''b'']"
  by (simp add: copy_run move_run transfer_callback_def makePublic_run after_request_def
      getUrl_def or_else_def resolve_def default_options_def adapter0_def client_ok_def
      Let_def)

text \<open>
  In general: when \<^verbatim>\<open>options.public === true\<close> and the copy or move succeeded, the
  next things the call does are a second resolution of the selector, which by then gives
  the default bucket, and the request to make \<^verbatim>\<open>dest\<close> public in that bucket.
\<close>

lemma publicize_request:
  "reply_error r = None \<Longrightarrow> opts ''public'' = Some (JBool True) \<Longrightarrow>
   \<exists>es. trace (snd (transfer_callback env dest destBucket opts r s)) =
     trace s @ [SelectorResolved (fst (resolve (selector s))),
                Outbound (ReqMakePublic (fst (resolve (selector s))) dest)] @ es"
proof (cases "fst (makePublic env dest s)")
  case (Resolved data)
  assume "reply_error r = None" "opts ''public'' = Some (JBool True)"
  then have "transfer_callback env dest destBucket opts r s =
     (Resolved (JString (fst (getUrl dest (Some destBucket) (snd (makePublic env dest s))))),
      snd (getUrl dest (Some destBucket) (snd (makePublic env dest s))))"
    using Resolved by (rule transfer_callback_public_done)
  moreover obtain es where
    "trace (snd (getUrl dest (Some destBucket) (snd (makePublic env dest s))))
       = trace (snd (makePublic env dest s)) @ es"
    using getUrl_trace by blast
  ultimately show ?thesis
    by (simp add: makePublic_run after_request_def)
next
  case (Rejected e)
  assume "reply_error r = None" "opts ''public'' = Some (JBool True)"
  then have "transfer_callback env dest destBucket opts r s
      = (Rejected e, snd (makePublic env dest s))"
    using Rejected by (rule transfer_callback_public_failed)
  then show ?thesis
    by (simp add: makePublic_run after_request_def)
qed


lemma publicize_targets_default_bucket:
  assumes "default_options opts ''public'' = Some (JBool True)"
  shows "reply_error (fst (backend env
            (ReqCopy (fst (resolve (selector s))) src
               (or_else destBucket_arg (fst (resolve (selector s)))) dest (default_options opts))
            (world s))) = None \<Longrightarrow>
         \<exists>es. trace (snd (copy env src dest destBucket_arg opts s)) =
           trace s @ [SelectorResolved (fst (resolve (selector s))),
                      Outbound (ReqCopy (fst (resolve (selector s))) src
                        (or_else destBucket_arg (fst (resolve (selector s)))) dest
                        (default_options opts)),
                      SelectorResolved (defaultBucket (selector s)),
                      Outbound (ReqMakePublic (defaultBucket (selector s)) dest)] @ es"
    and "reply_error (fst (backend env
            (ReqMove (fst (resolve (selector s))) src
               (or_else destBucket_arg (fst (resolve (selector s)))) dest (default_options opts))
            (world s))) = None \<Longrightarrow>
         \<exists>es. trace (snd (move env src dest destBucket_arg opts s)) =
           trace s @ [SelectorResolved (fst (resolve (selector s))),
                      Outbound (ReqMove (fst (resolve (selector s))) src
                        (or_else destBucket_arg (fst (resolve (selector s)))) dest
                        (default_options opts)),
                      SelectorResolved (defaultBucket (selector s)),
                      Outbound (ReqMakePublic (defaultBucket (selector s)) dest)] @ es"
proof -
  have step: "\<exists>es. trace (snd (transfer_callback env dest db (default_options opts) r
                      (after_request env rq s))) =
      trace s @ [SelectorResolved (fst (resolve (selector s))), Outbound rq,
                 SelectorResolved (defaultBucket (selector s)),
                 Outbound (ReqMakePublic (defaultBucket (selector s)) dest)] @ es"
    if "reply_error r = None" for r rq db
    using that assms
      publicize_request [where r = r and opts = "default_options opts" and env = env
        and dest = dest and destBucket = db and s = "after_request env rq s"]
    by (simp add: after_request_def resolve_again)
  show "reply_error (fst (backend env
            (ReqCopy (fst (resolve (selector s))) src
               (or_else destBucket_arg (fst (resolve (selector s)))) dest (default_options opts))
            (world s))) = None \<Longrightarrow>
         \<exists>es. trace (snd (copy env src dest destBucket_arg opts s)) =
           trace s @ [SelectorResolved (fst (resolve (selector s))),
                      Outbound (ReqCopy (fst (resolve (selector s))) src
                        (or_else destBucket_arg (fst (resolve (selector s)))) dest
                        (default_options opts)),
                      SelectorResolved (defaultBucket (selector s)),
                      Outbound (ReqMakePublic (defaultBucket (selector s)) dest)] @ es"
    unfolding copy_run Let_def by (rule step)
  show "reply_error (fst (backend env
            (ReqMove (fst (resolve (selector s))) src
               (or_else destBucket_arg (fst (resolve (selector s)))) dest (default_options opts))
            (world s))) = None \<Longrightarrow>
         \<exists>es. trace (snd (move env src dest destBucket_arg opts s)) =
           trace s @ [SelectorResolved (fst (resolve (selector s))),
                      Outbound (ReqMove (fst (resolve (selector s))) src
                        (or_else destBucket_arg (fst (resolve (selector s)))) dest
                        (default_options opts)),
                      SelectorResolved (defaultBucket (selector s)),
                      Outbound (ReqMakePublic (defaultBucket (selector s)) dest)] @ es"
    unfolding move_run Let_def by (rule step)
qed

text \<open>
  Claim C5. Let the storage client refuse every request that names an empty bucket, as
  the real client does. Then for every \<^verbatim>\<open>copy\<close> and \<^verbatim>\<open>move\<close> whose promise resolves,
  the value is the string \<^verbatim>\<open>https://storage.googleapis.com/{destBucket}/{dest}\<close>, with
  \<^verbatim>\<open>destBucket\<close> the destination bucket of the call (\<^verbatim>\<open>destBucket || bucket\<close>, \<^verbatim>\<open>bucket\<close>
  being the source bucket the selector resolved to): that is \<^verbatim>\<open>getUrl(dest, destBucket)\<close>.
  The statement holds for every options object, so both when
  \<^verbatim>\<open>options.public === true\<close> (the publicize step ran) and when not. An empty destination
  bucket, the one case where \<^verbatim>\<open>getUrl\<close> would look elsewhere, never reaches a resolved
  promise: it needs an empty source bucket, and the client refuses the request.
\<close>

theorem transfer_resolves_to_destination_url:
  assumes refuses:
    "\<And>rq w. names_empty_bucket rq \<Longrightarrow> reply_error (fst (backend env rq w)) \<noteq> None"
  shows
    "(fst (copy env src dest destBucket_arg opts s) = Resolved v \<longrightarrow>
        v = JString (''https://storage.googleapis.com/''
              @ or_else destBucket_arg (fst (resolve (selector s))) @ ''/'' @ dest)) \<and>
     (fst (move env src dest destBucket_arg opts s) = Resolved v' \<longrightarrow>
        v' = JString (''https://storage.googleapis.com/''
              @ or_else destBucket_arg (fst (resolve (selector s))) @ ''/'' @ dest))"
proof -
  let ?db = "or_else destBucket_arg (fst (resolve (selector s)))"
  have step: "u = JString (''https://storage.googleapis.com/'' @ ?db @ ''/'' @ dest)"
    if named: "?db = [] \<Longrightarrow> names_empty_bucket rq"
      and resolved: "fst (transfer_callback env dest ?db (default_options opts)
                       (fst (backend env rq (world s))) (after_request env rq s)) = Resolved u"
    for rq u
  proof (cases "?db = []")
    case True
    then have "reply_error (fst (backend env rq (world s))) \<noteq> None"
      using named refuses by blast
    then obtain e where "reply_error (fst (backend env rq (world s))) = Some e"
      by blast
    then have "fst (transfer_callback env dest ?db (default_options opts)
                 (fst (backend env rq (world s))) (after_request env rq s)) = Rejected e"
      by (simp add: transfer_callback_rejected)
    with resolved show ?thesis by simp
  next
    case False
    then show ?thesis using resolved by (rule transfer_callback_url)
  qed
  have copied: "fst (copy env src dest destBucket_arg opts s) = Resolved v \<Longrightarrow>
      v = JString (''https://storage.googleapis.com/'' @ ?db @ ''/'' @ dest)"
    unfolding copy_run Let_def by (rule step) simp_all
  have moved: "fst (move env src dest destBucket_arg opts s) = Resolved v' \<Longrightarrow>
      v' = JString (''https://storage.googleapis.com/'' @ ?db @ ''/'' @ dest)"
    unfolding move_run Let_def by (rule step) simp_all
  show ?thesis
    using copied moved by blast
qed

text \<open>
  Claim C5 on the client that refuses a bucket without a name: a copy into another bucket
  with the publicize step and a move within the default bucket without it resolve to the
  URL of their destination, and after \<^verbatim>\<open>bucket('')\<close> a copy, whose source and destination
  bucket are then empty, is rejected.
\<close>

theorem transfer_resolves_to_destination_url_witness:
  "reply_error (fst (backend client_named_buckets
       (ReqCopy '''' ''a'' '''' ''b'' Map.empty) ()))
     = Some (Error ''A bucket name is needed to use Cloud Storage.'') \<and>
   fst (copy client_named_buckets ''a'' ''b'' (Some ''other'')
       (Some [''public'' \<mapsto> JBool True]) adapter0)
     = Resolved (JString ''https://storage.googleapis.com/other/b'') \<and>
   fst (move client_named_buckets ''a'' ''b'' None None adapter0)
     = Resolved (JString ''https://storage.googleapis.com/d/b'') \<and>
   fst (copy client_named_buckets ''a'' ''b'' None None (bucket '''' adapter0))
     = Rejected (Error ''A bucket name is needed to use Cloud Storage.'')"
proof -
  have refuses: "names_empty_bucket rq \<Longrightarrow>
      reply_error (fst (backend client_named_buckets rq w)) \<noteq> None" for rq w
    by (simp add: client_named_buckets_def client_ok_def)
  have public_copy:
    "fst (copy client_named_buckets ''a'' ''b'' (Some ''other'')
        (Some [''public'' \<mapsto> JBool True]) adapter0)
       = Resolved (JString ''https://storage.googleapis.com/other/b'')"
    by (simp add: copy_run transfer_callback_def makePublic_run after_request_def
        getUrl_def or_else_def resolve_def default_options_def adapter0_def
        client_named_buckets_def client_ok_def Let_def)
  have plain_move:
    "fst (move client_named_buckets ''a'' ''b'' None None adapter0)
       = Resolved (JString ''https://storage.googleapis.com/d/b'')"
    by (simp add: move_run transfer_callback_def after_request_def
        getUrl_def or_else_def resolve_def default_options_def adapter0_def
        client_named_buckets_def client_ok_def Let_def)
  have unnamed:
    "fst (copy client_named_buckets ''a'' ''b'' None None (bucket '''' adapter0))
       = Rejected (Error ''A bucket name is needed to use Cloud Storage.'')"
    by (simp add: copy_run transfer_callback_def after_request_def or_else_def resolve_def
        bucket_def setOverride_def default_options_def adapter0_def
        client_named_buckets_def client_ok_def Let_def)
  show ?thesis
    using transfer_resolves_to_destination_url
        [of client_named_buckets "''a''" "''b''" "Some ''other''"
            "Some [''public'' \<mapsto> JBool True]" adapter0
            "JString ''https://storage.googleapis.com/other/b''", OF refuses]
      transfer_resolves_to_destination_url
        [of client_named_buckets "''a''" "''b''" None None adapter0 _
            "JString ''https://storage.googleapis.com/d/b''", OF refuses]
      public_copy plain_move unnamed
    by (simp add: client_named_buckets_def client_ok_def)
qed

text \<open>
  Claim C6, as amended. Every \<^verbatim>\<open>copy\<close> and \<^verbatim>\<open>move\<close> begins by resolving the selector:
  that is the source bucket. The request that follows at once, with no other resolution
  in between, has as destination bucket the \<^verbatim>\<open>destBucket\<close> argument when it is supplied
  and not the empty string, and the source bucket already resolved when the argument is
  absent or empty.
\<close>

theorem transfer_buckets:
  "(\<exists>rest. trace (snd (copy env src dest destBucket_arg opts s)) =
      trace s @ [SelectorResolved (fst (resolve (selector s))),
                 Outbound (ReqCopy (fst (resolve (selector s))) src
                   (case destBucket_arg of
                      None \<Rightarrow> fst (resolve (selector s))
                    | Some x \<Rightarrow> if x \<noteq> [] then x else fst (resolve (selector s)))
                   dest (default_options opts))] @ rest) \<and>
   (\<exists>rest. trace (snd (move env src dest destBucket_arg opts s)) =
      trace s @ [SelectorResolved (fst (resolve (selector s))),
                 Outbound (ReqMove (fst (resolve (selector s))) src
                   (case destBucket_arg of
                      None \<Rightarrow> fst (resolve (selector s))
                    | Some x \<Rightarrow> if x \<noteq> [] then x else fst (resolve (selector s)))
                   dest (default_options opts))] @ rest)"
proof -
  have dest: "(case destBucket_arg of
                 None \<Rightarrow> fst (resolve (selector s))
               | Some x \<Rightarrow> if x \<noteq> [] then x else fst (resolve (selector s)))
      = or_else destBucket_arg (fst (resolve (selector s)))"
    by (simp add: or_else_def)
  show ?thesis
    unfolding dest using transfer_starts [of env src dest destBucket_arg opts s] by blast
qed

text \<open>
  Claim C6 as stated fails for a supplied but empty \<^verbatim>\<open>destBucket\<close>:
  \<^verbatim>\<open>copy('a', 'b', '')\<close> on a driver with default bucket \<^verbatim>\<open>d\<close> copies into bucket
  \<^verbatim>\<open>d\<close>, not into the bucket named by the argument.
\<close>

theorem transfer_empty_destBucket_counterexample:
  "requests (trace (snd (copy client_ok ''a'' ''b'' (Some '''') None adapter0)))
     = [ReqCopy ''d'' ''a'' ''d'' ''b'' Map.empty] \<and>
   requests (trace (snd (copy client_ok ''a'' ''b'' (Some '''') None adapter0)))
     \<noteq> [ReqCopy ''d'' ''a'' '''' ''b'' Map.empty]"
  by (simp add: copy_run transfer_callback_def after_request_def getUrl_def or_else_def
      resolve_def default_options_def adapter0_def client_ok_def Let_def)

text \<open>
  Claim C7. Take a \<^verbatim>\<open>copy\<close> or \<^verbatim>\<open>move\<close> with \<^verbatim>\<open>options.public === true\<close> whose
  request the client answers without error, and let the \<^verbatim>\<open>makePublic\<close> that follows be
  answered with the error \<open>e\<close>. Then the promise is rejected with exactly \<open>e\<close>; the
  request of \<^verbatim>\<open>makePublic\<close> is the last thing the call does (nothing is sent to undo the
  copy or move), and the outside world is left as the two requests made it.
\<close>

theorem publicize_failure_is_surfaced:
  "default_options opts ''public'' = Some (JBool True) \<Longrightarrow>
   (let b = fst (resolve (selector s));
        destBucket = or_else destBucket_arg b;
        d = defaultBucket (selector s);
        copied = backend env (ReqCopy b src destBucket dest (default_options opts)) (world s);
        published = backend env (ReqMakePublic d dest) (snd copied)
    in reply_error (fst copied) = None \<and> reply_error (fst published) = Some e \<longrightarrow>
         fst (copy env src dest destBucket_arg opts s) = Rejected e \<and>
         world (snd (copy env src dest destBucket_arg opts s)) = snd published \<and>
         trace (snd (copy env src dest destBucket_arg opts s)) =
           trace s @ [SelectorResolved b,
                      Outbound (ReqCopy b src destBucket dest (default_options opts)),
                      SelectorResolved d,
                      Outbound (ReqMakePublic d dest)]) \<and>
   (let b = fst (resolve (selector s));
        destBucket = or_else destBucket_arg b;
        d = defaultBucket (selector s);
        moved = backend env (ReqMove b src destBucket dest (default_options opts)) (world s);
        published = backend env (ReqMakePublic d dest) (snd moved)
    in reply_error (fst moved) = None \<and> reply_error (fst published) = Some e \<longrightarrow>
         fst (move env src dest destBucket_arg opts s) = Rejected e \<and>
         world (snd (move env src dest destBucket_arg opts s)) = snd published \<and>
         trace (snd (move env src dest destBucket_arg opts s)) =
           trace s @ [SelectorResolved b,
                      Outbound (ReqMove b src destBucket dest (default_options opts)),
                      SelectorResolved d,
                      Outbound (ReqMakePublic d dest)])"
proof -
  assume pub: "default_options opts ''public'' = Some (JBool True)"
  have step: "fst (transfer_callback env dest db (default_options opts) r (after_request env rq s))
        = Rejected e \<and>
      world (snd (transfer_callback env dest db (default_options opts) r (after_request env rq s)))
        = snd (backend env (ReqMakePublic (defaultBucket (selector s)) dest)
                (snd (backend env rq (world s)))) \<and>
      trace (snd (transfer_callback env dest db (default_options opts) r (after_request env rq s)))
        = trace s @ [SelectorResolved (fst (resolve (selector s))), Outbound rq,
                     SelectorResolved (defaultBucket (selector s)),
                     Outbound (ReqMakePublic (defaultBucket (selector s)) dest)]"
    if ok: "reply_error r = None"
      and failed: "reply_error (fst (backend env (ReqMakePublic (defaultBucket (selector s)) dest)
                     (snd (backend env rq (world s))))) = Some e"
    for db r rq
  proof -
    have rejected: "fst (makePublic env dest (after_request env rq s)) = Rejected e"
      using failed by (simp add: makePublic_run after_request_def resolve_again)
    have "transfer_callback env dest db (default_options opts) r (after_request env rq s)
        = (Rejected e, snd (makePublic env dest (after_request env rq s)))"
      using ok pub rejected by (rule transfer_callback_public_failed)
    then show ?thesis
      by (simp add: makePublic_run after_request_def resolve_again)
  qed
  show ?thesis
    unfolding copy_run move_run Let_def using step by blast
qed

text \<open>
  Claim C7 on a client that refuses every change of ACL: the copy and the move into bucket
  \<^verbatim>\<open>other\<close> succeed, the publicize step fails, and the promise is rejected with the
  client's error.
\<close>

theorem publicize_failure_is_surfaced_witness:
  "default_options (Some [''public'' \<mapsto> JBool True]) ''public'' = Some (JBool True) \<and>
   reply_error (fst (backend client_acl_denied
       (ReqCopy ''d'' ''a'' ''other'' ''b'' [''public'' \<mapsto> JBool True]) ())) = None \<and>
   reply_error (fst (backend client_acl_denied
       (ReqMove ''d'' ''a'' ''other'' ''b'' [''public'' \<mapsto> JBool True]) ())) = None \<and>
   reply_error (fst (backend client_acl_denied (ReqMakePublic ''d'' ''b'') ()))
     = Some (Error ''forbidden'') \<and>
   fst (copy client_acl_denied ''a'' ''b'' (Some ''other'')
       (Some [''public'' \<mapsto> JBool True]) adapter0)
     = Rejected (Error ''forbidden'') \<and>
   trace (snd (copy client_acl_denied ''a'' ''b'' (Some ''other'')
       (Some [''public'' \<mapsto> JBool True]) adapter0))
     = [SelectorResolved ''d'',
        Outbound (ReqCopy ''d'' ''a'' ''other'' ''b'' [''public'' \<mapsto> JBool True]),
        SelectorResolved ''d'',
        Outbound (ReqMakePublic ''d'' ''b'')] \<and>
   fst (move client_acl_denied ''a'' ''b'' (Some ''other'')
       (Some [''public'' \<mapsto> JBool True]) adapter0)
     = Rejected (Error ''forbidden'')"
  using publicize_failure_is_surfaced
    [of "Some [''public'' \<mapsto> JBool True]" adapter0 "Some ''other''" client_acl_denied
        "''a''" "''b''" "Error ''forbidden''"]
  by (simp add: default_options_def or_else_def resolve_def adapter0_def client_acl_denied_def
      client_ok_def Let_def)

section \<open>Download\<close>

lemma download_run:
  "download env location s =
     (let now = clock env (world s);
          dest = ''tmp/'' @ number_toString now @ ''-'' @ location;
          b = fst (resolve (selector s))
      in if fs_existsSync env ''tmp'' (world s) then
           (let r = backend env (ReqDownload b location dest) (world s);
                s4 = s\<lparr>selector := snd (resolve (selector s)), world := snd r,
                       trace := trace s @ [ClockRead now, FsExistsSync ''tmp'',
                         SelectorResolved b, Outbound (ReqDownload b location dest)]\<rparr>
            in case reply_error (fst r) of
                 Some error \<Rightarrow> (Inr (Rejected error), s4)
               | None \<Rightarrow> (Inr (Resolved (JString dest)), s4))
         else
           (let m = fs_mkdirSync env ''tmp'' (world s)
            in case fst m of
                 Some e \<Rightarrow>
                   (Inl e, s\<lparr>world := snd m,
                      trace := trace s @ [ClockRead now, FsExistsSync ''tmp'',
                        FsMkdirSync ''tmp'']\<rparr>)
               | None \<Rightarrow>
                  (let r = backend env (ReqDownload b location dest) (snd m);
                       s4 = s\<lparr>selector := snd (resolve (selector s)), world := snd r,
                         trace := trace s @ [ClockRead now, FsExistsSync ''tmp'',
                           FsMkdirSync ''tmp'', SelectorResolved b,
                           Outbound (ReqDownload b location dest)]\<rparr>
                   in case reply_error (fst r) of
                        Some error \<Rightarrow> (Inr (Rejected error), s4)
                      | None \<Rightarrow> (Inr (Resolved (JString dest)), s4))))"
  by (simp add: download_def existsSync_def mkdirSync_def pull_eq send_eq
      split_def Let_def split: option.splits)

text \<open>
  Claim C8. Whenever \<^verbatim>\<open>download(location)\<close> gets as far as a promise, what it did is:
  read the clock, look for the directory \<^verbatim>\<open>tmp\<close>, make it if (and only if) it was not
  there, resolve the selector and send the download request, in this order and nothing
  else; so the directory is made before the request and nothing is removed afterwards.
  When the promise resolves, its value is the relative path \<^verbatim>\<open>tmp/<digits>-<location>\<close>,
  the digits being the clock's milliseconds in decimal (at least one digit, only digits),
  and this is the destination the request named.
\<close>

theorem download_path_and_directory:
  "fst (download env location s) = Inr p \<Longrightarrow>
   (let digits = number_toString (clock env (world s));
        dest = ''tmp/'' @ digits @ ''-'' @ location;
        b = fst (resolve (selector s))
    in digits \<noteq> [] \<and> set digits \<subseteq> set ''0123456789'' \<and>
       (\<forall>v. p = Resolved v \<longrightarrow> v = JString dest) \<and>
       trace (snd (download env location s)) =
         trace s @ [ClockRead (clock env (world s)), FsExistsSync ''tmp'']
           @ (if fs_existsSync env ''tmp'' (world s) then [] else [FsMkdirSync ''tmp''])
           @ [SelectorResolved b, Outbound (ReqDownload b location dest)])"
proof -
  let ?dest = "''tmp/'' @ number_toString (clock env (world s)) @ ''-'' @ location"
  let ?b = "fst (resolve (selector s))"
  assume ran: "fst (download env location s) = Inr p"
  have shape: "number_toString (clock env (world s)) \<noteq> []"
    "set (number_toString (clock env (world s))) \<subseteq> set ''0123456789''"
    by (rule number_toString_nonempty, rule number_toString_digits)
  have both: "(\<forall>v. p = Resolved v \<longrightarrow> v = JString ?dest) \<and>
      trace (snd (download env location s)) =
         trace s @ [ClockRead (clock env (world s)), FsExistsSync ''tmp'']
           @ (if fs_existsSync env ''tmp'' (world s) then [] else [FsMkdirSync ''tmp''])
           @ [SelectorResolved ?b, Outbound (ReqDownload ?b location ?dest)]"
  proof (cases "fs_existsSync env ''tmp'' (world s)")
    case True
    with ran show ?thesis
      by (cases "reply_error (fst (backend env (ReqDownload ?b location ?dest) (world s)))")
         (auto simp add: download_run Let_def)
  next
    case False
    with ran show ?thesis
      by (cases "fst (fs_mkdirSync env ''tmp'' (world s))";
          cases "reply_error (fst (backend env (ReqDownload ?b location ?dest)
                   (snd (fs_mkdirSync env ''tmp'' (world s)))))")
         (auto simp add: download_run Let_def)
  qed
  show ?thesis
    unfolding Let_def using shape both by blast
qed

text \<open>
  Claim C8 on a first download, at the clock reading 1700000000123 and with no directory
  \<^verbatim>\<open>tmp\<close> yet.
\<close>

theorem download_path_and_directory_witness:
  "fst (download client_ok ''x.png'' adapter0)
     = Inr (Resolved (JString ''tmp/1700000000123-x.png'')) \<and>
   number_toString 1700000000123 = ''1700000000123'' \<and>
   set ''1700000000123'' \<subseteq> set ''0123456789'' \<and>
   trace (snd (download client_ok ''x.png'' adapter0)) =
     [ClockRead 1700000000123, FsExistsSync ''tmp'', FsMkdirSync ''tmp'',
      SelectorResolved ''d'', Outbound (ReqDownload ''d'' ''x.png'' ''tmp/1700000000123-x.png'')]"
proof -
  have digits: "number_toString 1700000000123 = ''1700000000123''"
    by (simp add: number_toString.simps digit_char_def)
  have run: "fst (download client_ok ''x.png'' adapter0)
      = Inr (Resolved (JString ''tmp/1700000000123-x.png''))"
    unfolding download_run
    by (simp add: resolve_def digits adapter0_def client_ok_def Let_def)
  show ?thesis
    using download_path_and_directory [OF run] run digits
    by (simp add: Let_def resolve_def adapter0_def client_ok_def)
qed

end
